theory Spec2Isabelle
  imports Complex_Main "HOL-Library.Word"
begin

section \<open>The native interface of class \<open>org.apache.sis.storage.gdal.PJ\<close>\<close>

text \<open>
  The repository's C source is the machine-generated JNI header
  \<^verbatim>\<open>org_apache_sis_storage_gdal_PJ.h\<close>. It holds one constant and fifteen function
  prototypes, each under a comment that gives the Java method's name and its JVM
  signature. The header is embedded as data: a prototype is a record of what the
  header writes for it, and the constant is a number.
\<close>

subsection \<open>C types of the prototypes\<close>

text \<open>
  The types that appear in the prototypes, as \<^verbatim>\<open>jni.h\<close> names them. \<open>C_JNIEnv_ptr\<close>
  is \<^verbatim>\<open>JNIEnv *\<close>, the first parameter of every native function.
\<close>

datatype ctype =
    C_void
  | C_jboolean
  | C_jint
  | C_jlong
  | C_jdouble
  | C_jobject
  | C_jclass
  | C_jstring
  | C_jcharArray
  | C_jdoubleArray
  | C_JNIEnv_ptr

text \<open>
  One prototype of the header: the C symbol, the \<open>Method:\<close> and \<open>Signature:\<close> lines of
  its comment, the return type and the parameter types in order.
\<close>

record native_decl =
  symbol :: string
  java_method :: string
  java_signature :: string
  returns :: ctype
  parameters :: "ctype list"

text \<open>Line 11: \<^verbatim>\<open>#define org_apache_sis_storage_gdal_PJ_DIMENSION_MAX 100L\<close>.\<close>

definition org_apache_sis_storage_gdal_PJ_DIMENSION_MAX :: int where
  "org_apache_sis_storage_gdal_PJ_DIMENSION_MAX = 100"

text \<open>Lines 12 to 130: the prototypes, in the header's order.\<close>

definition Java_org_apache_sis_storage_gdal_PJ_allocatePJ :: native_decl where
  "Java_org_apache_sis_storage_gdal_PJ_allocatePJ =
     \<lparr> symbol = ''Java_org_apache_sis_storage_gdal_PJ_allocatePJ'',
       java_method = ''allocatePJ'',
       java_signature = ''(Ljava/lang/String;)J'',
       returns = C_jlong,
       parameters = [C_JNIEnv_ptr, C_jclass, C_jstring] \<rparr>"

definition Java_org_apache_sis_storage_gdal_PJ_allocateGeoPJ :: native_decl where
  "Java_org_apache_sis_storage_gdal_PJ_allocateGeoPJ =
     \<lparr> symbol = ''Java_org_apache_sis_storage_gdal_PJ_allocateGeoPJ'',
       java_method = ''allocateGeoPJ'',
       java_signature = ''(Lorg/apache/sis/storage/gdal/PJ;)J'',
       returns = C_jlong,
       parameters = [C_JNIEnv_ptr, C_jclass, C_jobject] \<rparr>"

definition Java_org_apache_sis_storage_gdal_PJ_getVersion :: native_decl where
  "Java_org_apache_sis_storage_gdal_PJ_getVersion =
     \<lparr> symbol = ''Java_org_apache_sis_storage_gdal_PJ_getVersion'',
       java_method = ''getVersion'',
       java_signature = ''()Ljava/lang/String;'',
       returns = C_jstring,
       parameters = [C_JNIEnv_ptr, C_jclass] \<rparr>"

definition Java_org_apache_sis_storage_gdal_PJ_getDefinition :: native_decl where
  "Java_org_apache_sis_storage_gdal_PJ_getDefinition =
     \<lparr> symbol = ''Java_org_apache_sis_storage_gdal_PJ_getDefinition'',
       java_method = ''getDefinition'',
       java_signature = ''()Ljava/lang/String;'',
       returns = C_jstring,
       parameters = [C_JNIEnv_ptr, C_jobject] \<rparr>"

definition Java_org_apache_sis_storage_gdal_PJ_getType :: native_decl where
  "Java_org_apache_sis_storage_gdal_PJ_getType =
     \<lparr> symbol = ''Java_org_apache_sis_storage_gdal_PJ_getType'',
       java_method = ''getType'',
       java_signature = ''()Lorg/apache/sis/storage/gdal/PJ/Type;'',
       returns = C_jobject,
       parameters = [C_JNIEnv_ptr, C_jobject] \<rparr>"

definition Java_org_apache_sis_storage_gdal_PJ_getEccentricitySquared :: native_decl where
  "Java_org_apache_sis_storage_gdal_PJ_getEccentricitySquared =
     \<lparr> symbol = ''Java_org_apache_sis_storage_gdal_PJ_getEccentricitySquared'',
       java_method = ''getEccentricitySquared'',
       java_signature = ''()D'',
       returns = C_jdouble,
       parameters = [C_JNIEnv_ptr, C_jobject] \<rparr>"

definition Java_org_apache_sis_storage_gdal_PJ_getSemiMajorAxis :: native_decl where
  "Java_org_apache_sis_storage_gdal_PJ_getSemiMajorAxis =
     \<lparr> symbol = ''Java_org_apache_sis_storage_gdal_PJ_getSemiMajorAxis'',
       java_method = ''getSemiMajorAxis'',
       java_signature = ''()D'',
       returns = C_jdouble,
       parameters = [C_JNIEnv_ptr, C_jobject] \<rparr>"

definition Java_org_apache_sis_storage_gdal_PJ_getSemiMinorAxis :: native_decl where
  "Java_org_apache_sis_storage_gdal_PJ_getSemiMinorAxis =
     \<lparr> symbol = ''Java_org_apache_sis_storage_gdal_PJ_getSemiMinorAxis'',
       java_method = ''getSemiMinorAxis'',
       java_signature = ''()D'',
       returns = C_jdouble,
       parameters = [C_JNIEnv_ptr, C_jobject] \<rparr>"

definition Java_org_apache_sis_storage_gdal_PJ_getGreenwichLongitude :: native_decl where
  "Java_org_apache_sis_storage_gdal_PJ_getGreenwichLongitude =
     \<lparr> symbol = ''Java_org_apache_sis_storage_gdal_PJ_getGreenwichLongitude'',
       java_method = ''getGreenwichLongitude'',
       java_signature = ''()D'',
       returns = C_jdouble,
       parameters = [C_JNIEnv_ptr, C_jobject] \<rparr>"

definition Java_org_apache_sis_storage_gdal_PJ_getAxisDirections :: native_decl where
  "Java_org_apache_sis_storage_gdal_PJ_getAxisDirections =
     \<lparr> symbol = ''Java_org_apache_sis_storage_gdal_PJ_getAxisDirections'',
       java_method = ''getAxisDirections'',
       java_signature = ''()[C'',
       returns = C_jcharArray,
       parameters = [C_JNIEnv_ptr, C_jobject] \<rparr>"

definition Java_org_apache_sis_storage_gdal_PJ_getLinearUnitToMetre :: native_decl where
  "Java_org_apache_sis_storage_gdal_PJ_getLinearUnitToMetre =
     \<lparr> symbol = ''Java_org_apache_sis_storage_gdal_PJ_getLinearUnitToMetre'',
       java_method = ''getLinearUnitToMetre'',
       java_signature = ''(Z)D'',
       returns = C_jdouble,
       parameters = [C_JNIEnv_ptr, C_jobject, C_jboolean] \<rparr>"

definition Java_org_apache_sis_storage_gdal_PJ_transform :: native_decl where
  "Java_org_apache_sis_storage_gdal_PJ_transform =
     \<lparr> symbol = ''Java_org_apache_sis_storage_gdal_PJ_transform'',
       java_method = ''transform'',
       java_signature = ''(Lorg/apache/sis/storage/gdal/PJ;I[DII)V'',
       returns = C_void,
       parameters = [C_JNIEnv_ptr, C_jobject, C_jobject, C_jint, C_jdoubleArray, C_jint, C_jint] \<rparr>"

definition Java_org_apache_sis_storage_gdal_PJ_getLastError :: native_decl where
  "Java_org_apache_sis_storage_gdal_PJ_getLastError =
     \<lparr> symbol = ''Java_org_apache_sis_storage_gdal_PJ_getLastError'',
       java_method = ''getLastError'',
       java_signature = ''()Ljava/lang/String;'',
       returns = C_jstring,
       parameters = [C_JNIEnv_ptr, C_jobject] \<rparr>"

definition Java_org_apache_sis_storage_gdal_PJ_toString :: native_decl where
  "Java_org_apache_sis_storage_gdal_PJ_toString =
     \<lparr> symbol = ''Java_org_apache_sis_storage_gdal_PJ_toString'',
       java_method = ''toString'',
       java_signature = ''()Ljava/lang/String;'',
       returns = C_jstring,
       parameters = [C_JNIEnv_ptr, C_jobject] \<rparr>"

definition Java_org_apache_sis_storage_gdal_PJ_finalize :: native_decl where
  "Java_org_apache_sis_storage_gdal_PJ_finalize =
     \<lparr> symbol = ''Java_org_apache_sis_storage_gdal_PJ_finalize'',
       java_method = ''finalize'',
       java_signature = ''()V'',
       returns = C_void,
       parameters = [C_JNIEnv_ptr, C_jobject] \<rparr>"

definition PJ_natives :: "native_decl list" where
  "PJ_natives =
     [ Java_org_apache_sis_storage_gdal_PJ_allocatePJ,
       Java_org_apache_sis_storage_gdal_PJ_allocateGeoPJ,
       Java_org_apache_sis_storage_gdal_PJ_getVersion,
       Java_org_apache_sis_storage_gdal_PJ_getDefinition,
       Java_org_apache_sis_storage_gdal_PJ_getType,
       Java_org_apache_sis_storage_gdal_PJ_getEccentricitySquared,
       Java_org_apache_sis_storage_gdal_PJ_getSemiMajorAxis,
       Java_org_apache_sis_storage_gdal_PJ_getSemiMinorAxis,
       Java_org_apache_sis_storage_gdal_PJ_getGreenwichLongitude,
       Java_org_apache_sis_storage_gdal_PJ_getAxisDirections,
       Java_org_apache_sis_storage_gdal_PJ_getLinearUnitToMetre,
       Java_org_apache_sis_storage_gdal_PJ_transform,
       Java_org_apache_sis_storage_gdal_PJ_getLastError,
       Java_org_apache_sis_storage_gdal_PJ_toString,
       Java_org_apache_sis_storage_gdal_PJ_finalize ]"

subsection \<open>Reading a prototype\<close>

text \<open>
  The return part of a JVM signature is what follows the closing parenthesis:
  \<open>V\<close> for void, \<open>J\<close> for long, \<open>D\<close> for double, \<open>L...;\<close> for a class.
\<close>

definition descriptor_return :: "string \<Rightarrow> string" where
  "descriptor_return s = drop 1 (dropWhile (\<lambda>c. c \<noteq> CHR '')'') s)"

text \<open>
  The Java-level arguments of a native function are its C parameters after
  \<^verbatim>\<open>JNIEnv *\<close> and the receiver (\<^verbatim>\<open>jobject\<close> of an instance method, \<^verbatim>\<open>jclass\<close> of a
  static one).
\<close>

definition java_arguments :: "native_decl \<Rightarrow> ctype list" where
  "java_arguments d = drop 2 (parameters d)"

primrec is_array :: "ctype \<Rightarrow> bool" where
  "is_array C_void = False"
| "is_array C_jboolean = False"
| "is_array C_jint = False"
| "is_array C_jlong = False"
| "is_array C_jdouble = False"
| "is_array C_jobject = False"
| "is_array C_jclass = False"
| "is_array C_jstring = False"
| "is_array C_jcharArray = True"
| "is_array C_jdoubleArray = True"
| "is_array C_JNIEnv_ptr = False"

text \<open>
  The primitive types of \<^verbatim>\<open>jni.h\<close>. An argument of such a type is passed by value: the
  callee cannot hand anything back through it.
\<close>

primrec is_primitive :: "ctype \<Rightarrow> bool" where
  "is_primitive C_void = False"
| "is_primitive C_jboolean = True"
| "is_primitive C_jint = True"
| "is_primitive C_jlong = True"
| "is_primitive C_jdouble = True"
| "is_primitive C_jobject = False"
| "is_primitive C_jclass = False"
| "is_primitive C_jstring = False"
| "is_primitive C_jcharArray = False"
| "is_primitive C_jdoubleArray = False"
| "is_primitive C_JNIEnv_ptr = False"

text \<open>A prototype returns a value to its caller when its return type is not \<^verbatim>\<open>void\<close>.\<close>

definition returns_value :: "native_decl \<Rightarrow> bool" where
  "returns_value d = (returns d \<noteq> C_void)"

text \<open>
  The values a C function of the header can hand back, by return type: nothing for
  \<^verbatim>\<open>void\<close>, the bits of a primitive (\<^verbatim>\<open>jboolean\<close> is 8 bits, \<^verbatim>\<open>jint\<close> 32,
  \<^verbatim>\<open>jlong\<close> and \<^verbatim>\<open>jdouble\<close> 64), or a reference that may be null.
\<close>

datatype jvalue =
    VVoid
  | VBoolean "8 word"
  | VInt "32 word"
  | VLong "64 word"
  | VDouble "64 word"
  | VRef "nat option"

primrec has_ctype :: "jvalue \<Rightarrow> ctype \<Rightarrow> bool" where
  "has_ctype VVoid t = (t = C_void)"
| "has_ctype (VBoolean b) t = (t = C_jboolean)"
| "has_ctype (VInt i) t = (t = C_jint)"
| "has_ctype (VLong l) t = (t = C_jlong)"
| "has_ctype (VDouble d) t = (t = C_jdouble)"
| "has_ctype (VRef r) t =
     (t = C_jobject \<or> t = C_jclass \<or> t = C_jstring \<or> t = C_jcharArray
      \<or> t = C_jdoubleArray \<or> t = C_JNIEnv_ptr)"

section \<open>The engine behind the prototypes\<close>

text \<open>
  The functions the header declares are defined outside the repository's sources: only
  their prototypes are there. The handle registry and the guard of \<open>transform\<close> are
  therefore written from the specification's words (sections 3, 4.3 and 4.4); each
  definition says so. The projection mathematics and the definition parser stay
  parameters: no definition below fixes what they compute.
\<close>

subsection \<open>Data model\<close>

text \<open>
  Modelled from the spec: the type classifier of a projection object (section 3,
  "a type classifier (variant: Geographic, Projected, Geocentric, Other)"); the code
  that computes it is missing from the sources.
\<close>

datatype pj_type = Geographic | Projected | Geocentric | Other

text \<open>
  Modelled from the spec: the ProjectionObject of section 3, whose constructor is
  missing from the sources. The float64 attributes are held as reals; nothing
  below computes with them. The unit scale is queried for the horizontal
  (\<open>False\<close>) or the vertical (\<open>True\<close>) axis.
\<close>

record ProjectionObject =
  definitionText :: string
  semiMajorAxis :: real
  semiMinorAxis :: real
  eccentricitySquared :: real
  greenwichLongitude :: real
  axisDirections :: string
  linearUnitToMetre :: "bool \<Rightarrow> real"
  pjType :: pj_type

text \<open>
  Modelled from the spec: the HandleTable of section 3, "the Registry's internal
  mapping from opaque handle value to owned ProjectionObject plus its ErrorContext",
  keyed by "an opaque, monotonically-issued identifier" (section 9). The ErrorContext
  is the last failure message, empty while none was recorded. The registry's code is
  missing from the sources.
\<close>

type_synonym handle = nat

record HandleEntry =
  object :: ProjectionObject
  lastError :: string

record Registry =
  table :: "handle \<rightharpoonup> HandleEntry"
  nextHandle :: handle

text \<open>Modelled from the spec: the error taxonomy of section 7.\<close>

datatype error =
    ParseError string
  | InvalidHandle
  | DomainError string
  | InternalError string

text \<open>
  Modelled from the spec: the Status that section 4.4 gives \<open>transform\<close>. A call is
  rejected when it breaks a precondition, and fails with an error of the taxonomy
  otherwise.
\<close>

datatype Status = Success | Rejected string | Failed error

subsection \<open>Handle registry (section 4.3)\<close>

text \<open>
  Modelled from the spec: \<open>allocate(definitionText) -> handle | ParseError\<close>, "parses
  and registers a new ProjectionObject, returns a fresh unique handle". The parser
  is the parameter \<open>parser\<close>; a failed parse leaves the registry as it was.
\<close>

definition allocate ::
  "(string \<Rightarrow> string + ProjectionObject) \<Rightarrow> string \<Rightarrow> Registry \<Rightarrow> (error + handle) \<times> Registry" where
  "allocate parser text r =
     (case parser text of
        Inl diagnostic \<Rightarrow> (Inl (ParseError diagnostic), r)
      | Inr obj \<Rightarrow>
          (Inr (nextHandle r),
           r\<lparr> table := (table r)(nextHandle r \<mapsto> \<lparr> object = obj, lastError = [] \<rparr>),
              nextHandle := Suc (nextHandle r) \<rparr>))"

text \<open>
  Modelled from the spec: \<open>release(handle)\<close>, which "removes the entry and frees the
  owned object and its ErrorContext"; section 6 lists it as "always succeeds". The
  function behind the prototype \<open>finalize\<close> is missing from the sources.
\<close>

definition release :: "handle \<Rightarrow> Registry \<Rightarrow> (error + unit) \<times> Registry" where
  "release h r = (Inr (), r\<lparr> table := (table r)(h := None) \<rparr>)"

text \<open>
  Modelled from the spec: section 4.5, a failing handle-scoped operation "MUST record
  a descriptive message into that handle's ErrorContext". A handle that is not live
  has no ErrorContext, and nothing is recorded for it.
\<close>

definition record_error :: "handle \<Rightarrow> string \<Rightarrow> Registry \<Rightarrow> Registry" where
  "record_error h msg r =
     (case table r h of
        None \<Rightarrow> r
      | Some e \<Rightarrow> r\<lparr> table := (table r)(h \<mapsto> e\<lparr> lastError := msg \<rparr>) \<rparr>)"

text \<open>
  Modelled from the spec: a failure "updates the Error Context attached to the handle(s)
  involved" (section 2); the message goes to each of the handles that is live.
\<close>

definition record_all :: "handle list \<Rightarrow> string \<Rightarrow> Registry \<Rightarrow> Registry" where
  "record_all hs msg r = fold (\<lambda>h. record_error h msg) hs r"

subsection \<open>Transform (section 4.4)\<close>

text \<open>
  Modelled from the spec: which of the two projection objects a tuple's transform
  failed at ("reported via the Error Context of the failing handle").
\<close>

datatype side = Source | Target

text \<open>
  The projection of one tuple from the source object's frame to the target's (steps
  a to c of section 4.4) is floating-point mathematics outside the sources. It is
  the parameter \<open>kernel\<close>: it returns the transformed tuple, or the failing side and
  a diagnostic.
\<close>

type_synonym kernel =
  "ProjectionObject \<Rightarrow> ProjectionObject \<Rightarrow> real list \<Rightarrow> (side \<times> string) + real list"

text \<open>
  Modelled from the spec: the buffer is "borrowed" and mutated "in place". A
  transformed tuple is written over the \<open>d\<close> values at position \<open>p\<close>; the buffer keeps
  its length.
\<close>

definition write_tuple :: "nat \<Rightarrow> nat \<Rightarrow> real list \<Rightarrow> real list \<Rightarrow> real list" where
  "write_tuple d p tuple buffer =
     fold (\<lambda>i b. b[p + i := tuple ! i]) [0 ..< min d (length tuple)] buffer"

text \<open>
  Modelled from the spec: "for each of the \<open>count\<close> tuples, converts the coordinate",
  with stride \<open>d\<close> between consecutive tuples. Of the two failure policies that section
  4.4 leaves to choose from, this is the one that aborts the batch at the first
  failing tuple; the tuples before it stay transformed.
\<close>

fun transform_tuples ::
  "(real list \<Rightarrow> (side \<times> string) + real list) \<Rightarrow> nat \<Rightarrow> nat \<Rightarrow> nat \<Rightarrow> real list
     \<Rightarrow> (side \<times> string) option \<times> real list" where
  "transform_tuples f d p 0 buffer = (None, buffer)"
| "transform_tuples f d p (Suc n) buffer =
     (case f (take d (drop p buffer)) of
        Inl failure \<Rightarrow> (Some failure, buffer)
      | Inr tuple \<Rightarrow> transform_tuples f d (p + d) n (write_tuple d p tuple buffer))"

text \<open>
  Modelled from the spec: the "descriptive message" of section 4.5 for each way a call
  can end before its first tuple. The wording is not the specification's.
\<close>

definition dimension_message :: string where
  "dimension_message = ''Illegal number of dimensions.''"

definition bounds_message :: string where
  "bounds_message = ''Coordinate range outside the buffer.''"

definition handle_message :: string where
  "handle_message = ''Unknown or released handle.''"

text \<open>
  Modelled from the spec: \<open>transform(source, target, dimension, buffer, offset, count)
  -> Status\<close> with the preconditions "\<open>1 \<le> dimension \<le> 100\<close> (the fixed ceiling);
  \<open>count \<ge> 0\<close>; \<open>offset\<close> within buffer bounds for \<open>count\<close> tuples of \<open>dimension\<close>
  values". The ceiling is the header's \<open>DIMENSION_MAX\<close>; \<open>dimension\<close>, \<open>offset\<close> and
  \<open>count\<close> are \<^verbatim>\<open>jint\<close> in the prototype, signed 32-bit integers read by \<open>sint\<close>.
  A call that names a handle that is not live, or that breaks a precondition, ends
  before any tuple is read. The function behind the prototype is missing from the
  sources.
\<close>

definition transform ::
  "kernel \<Rightarrow> handle \<Rightarrow> handle \<Rightarrow> 32 word \<Rightarrow> real list \<Rightarrow> 32 word \<Rightarrow> 32 word \<Rightarrow> Registry
     \<Rightarrow> Status \<times> real list \<times> Registry" where
  "transform K source target dimension buffer offset count r =
     (case (table r source, table r target) of
        (Some s, Some t) \<Rightarrow>
          if sint dimension < 1 \<or> org_apache_sis_storage_gdal_PJ_DIMENSION_MAX < sint dimension then
            (Rejected dimension_message, buffer, record_all [source, target] dimension_message r)
          else if sint count < 0 \<or> sint offset < 0
                  \<or> int (length buffer) < sint offset + sint count * sint dimension then
            (Rejected bounds_message, buffer, record_all [source, target] bounds_message r)
          else
            (case transform_tuples (K (object s) (object t)) (nat (sint dimension))
                    (nat (sint offset)) (nat (sint count)) buffer of
               (None, buffer') \<Rightarrow> (Success, buffer', r)
             | (Some (Source, msg), buffer') \<Rightarrow>
                 (Failed (DomainError msg), buffer', record_error source msg r)
             | (Some (Target, msg), buffer') \<Rightarrow>
                 (Failed (DomainError msg), buffer', record_error target msg r))
      | _ \<Rightarrow> (Failed InvalidHandle, buffer, record_all [source, target] handle_message r))"

subsection \<open>Sample inputs\<close>

text \<open>
  A registry with two live handles, and a kernel that adds one to every coordinate,
  for evaluating the definitions above at concrete inputs.
\<close>

definition sample_object :: ProjectionObject where
  "sample_object =
     \<lparr> definitionText = ''+proj=longlat +datum=WGS84'',
       semiMajorAxis = 6378137,
       semiMinorAxis = 6356752.314245,
       eccentricitySquared = 0.00669437999014,
       greenwichLongitude = 0,
       axisDirections = ''enu'',
       linearUnitToMetre = (\<lambda>vertical. 1),
       pjType = Geographic \<rparr>"

definition sample_registry :: Registry where
  "sample_registry =
     \<lparr> table = [1 \<mapsto> \<lparr> object = sample_object, lastError = [] \<rparr>,
                2 \<mapsto> \<lparr> object = sample_object, lastError = ''tolerance condition error'' \<rparr>],
       nextHandle = 3 \<rparr>"

definition shift_kernel :: kernel where
  "shift_kernel src tgt tuple = Inr (map (\<lambda>x. x + 1) tuple)"

section \<open>What the header settles\<close>

lemmas PJ_native_defs =
  Java_org_apache_sis_storage_gdal_PJ_allocatePJ_def
  Java_org_apache_sis_storage_gdal_PJ_allocateGeoPJ_def
  Java_org_apache_sis_storage_gdal_PJ_getVersion_def
  Java_org_apache_sis_storage_gdal_PJ_getDefinition_def
  Java_org_apache_sis_storage_gdal_PJ_getType_def
  Java_org_apache_sis_storage_gdal_PJ_getEccentricitySquared_def
  Java_org_apache_sis_storage_gdal_PJ_getSemiMajorAxis_def
  Java_org_apache_sis_storage_gdal_PJ_getSemiMinorAxis_def
  Java_org_apache_sis_storage_gdal_PJ_getGreenwichLongitude_def
  Java_org_apache_sis_storage_gdal_PJ_getAxisDirections_def
  Java_org_apache_sis_storage_gdal_PJ_getLinearUnitToMetre_def
  Java_org_apache_sis_storage_gdal_PJ_transform_def
  Java_org_apache_sis_storage_gdal_PJ_getLastError_def
  Java_org_apache_sis_storage_gdal_PJ_toString_def
  Java_org_apache_sis_storage_gdal_PJ_finalize_def

lemma header_has_fifteen_prototypes: "length PJ_natives = 15"
  by (simp add: PJ_natives_def)

text \<open>
  In every prototype the C return type and the return part of the \<open>Signature:\<close> comment
  agree on \<^verbatim>\<open>void\<close>, and every prototype starts with \<^verbatim>\<open>JNIEnv *\<close> and a receiver.
\<close>

lemma void_prototypes_match_signatures:
  "list_all (\<lambda>d. (returns d = C_void) = (descriptor_return (java_signature d) = ''V''))
     PJ_natives"
  by (simp add: PJ_natives_def PJ_native_defs descriptor_return_def)

lemma prototypes_start_with_env_and_receiver:
  "list_all (\<lambda>d. take 1 (parameters d) = [C_JNIEnv_ptr]
                 \<and> (take 1 (drop 1 (parameters d)) = [C_jobject]
                    \<or> take 1 (drop 1 (parameters d)) = [C_jclass]))
     PJ_natives"
  by (simp add: PJ_natives_def PJ_native_defs)

text \<open>Every C symbol is the JNI name of its Java method in class \<open>PJ\<close>.\<close>

lemma symbols_name_their_methods:
  "list_all (\<lambda>d. symbol d = ''Java_org_apache_sis_storage_gdal_PJ_'' @ java_method d) PJ_natives"
  by (simp add: PJ_natives_def PJ_native_defs)

text \<open>Of the fifteen native methods, only \<open>transform\<close> and \<open>finalize\<close> return nothing.\<close>

lemma void_natives:
  "map java_method (filter (\<lambda>d. returns d = C_void) PJ_natives) = [''transform'', ''finalize'']"
  by (simp add: PJ_natives_def PJ_native_defs)

lemma has_ctype_void: "has_ctype v C_void \<longleftrightarrow> v = VVoid"
  by (cases v) simp_all

text \<open>
  Claim C10. At the native interface \<open>transform\<close> is declared to return \<^verbatim>\<open>void\<close>: the C
  prototype and the JVM signature both say so, and the one value a call can hand back
  is the void value, so the prototype holds no per-call status. Its Java-level
  arguments are the target object, three \<^verbatim>\<open>jint\<close> passed by value and one array, the
  \<^verbatim>\<open>jdoubleArray\<close> of coordinates: the array is the only data the call gives back,
  and a failure has to be signalled outside the prototype.
\<close>

theorem transform_native_signature:
  "returns Java_org_apache_sis_storage_gdal_PJ_transform = C_void
   \<and> descriptor_return (java_signature Java_org_apache_sis_storage_gdal_PJ_transform) = ''V''
   \<and> java_arguments Java_org_apache_sis_storage_gdal_PJ_transform
       = [C_jobject, C_jint, C_jdoubleArray, C_jint, C_jint]
   \<and> filter is_array (parameters Java_org_apache_sis_storage_gdal_PJ_transform)
       = [C_jdoubleArray]
   \<and> filter (\<lambda>t. \<not> is_primitive t) (java_arguments Java_org_apache_sis_storage_gdal_PJ_transform)
       = [C_jobject, C_jdoubleArray]
   \<and> (\<forall>v. has_ctype v (returns Java_org_apache_sis_storage_gdal_PJ_transform) = (v = VVoid))"
  by (simp add: Java_org_apache_sis_storage_gdal_PJ_transform_def descriptor_return_def
      java_arguments_def has_ctype_void)

text \<open>
  Claim C6, as the specification states it, has \<open>transform\<close> return a Status value. The
  prototype returns no value.
\<close>

theorem transform_returns_no_status:
  "\<not> returns_value Java_org_apache_sis_storage_gdal_PJ_transform"
  by (simp add: returns_value_def Java_org_apache_sis_storage_gdal_PJ_transform_def)

text \<open>
  Claim C6, amended. The native \<open>transform\<close> returns no Status: whatever two calls hand
  back is the same value, so the return cannot tell a partially successful batch from
  a successful one.
\<close>

theorem transform_return_is_constant:
  assumes "has_ctype v (returns Java_org_apache_sis_storage_gdal_PJ_transform)"
      and "has_ctype w (returns Java_org_apache_sis_storage_gdal_PJ_transform)"
  shows "v = w"
  using assms
  by (simp add: Java_org_apache_sis_storage_gdal_PJ_transform_def has_ctype_void)

theorem transform_return_is_constant_witness:
  "has_ctype VVoid (returns Java_org_apache_sis_storage_gdal_PJ_transform)
   \<and> (VVoid :: jvalue) = VVoid"
proof -
  have h: "has_ctype VVoid (returns Java_org_apache_sis_storage_gdal_PJ_transform)"
    by (simp add: Java_org_apache_sis_storage_gdal_PJ_transform_def)
  show ?thesis using h transform_return_is_constant [OF h h] by simp
qed

section \<open>The registry and the guard of \<open>transform\<close>\<close>

subsection \<open>The buffer is mutated in place\<close>

lemma write_tuple_length: "length (write_tuple d p tuple buffer) = length buffer"
proof -
  have "length (fold (\<lambda>i b. b[p + i := tuple ! i]) js buffer) = length buffer" for js
    by (induction js arbitrary: buffer) simp_all
  then show ?thesis by (simp add: write_tuple_def)
qed

lemma transform_tuples_length:
  "length (snd (transform_tuples f d p n buffer)) = length buffer"
  by (induction n arbitrary: p buffer) (simp_all add: write_tuple_length split: sum.splits)

lemma transform_tuples_length_eq:
  "transform_tuples f d p n buffer = (outcome, buffer') \<Longrightarrow> length buffer' = length buffer"
  using transform_tuples_length [of f d p n buffer] by simp

lemma transform_buffer_length:
  "length (fst (snd (transform K source target dimension buffer offset count r))) = length buffer"
  unfolding transform_def
  by (auto split: option.splits prod.splits side.splits dest: transform_tuples_length_eq)

subsection \<open>Recording an error changes no object\<close>

lemma record_error_dom: "dom (table (record_error h msg r)) = dom (table r)"
  by (auto simp: record_error_def split: option.splits if_splits)

lemma record_error_object:
  "map_option object (table (record_error h msg r) k) = map_option object (table r k)"
  by (simp add: record_error_def split: option.splits)

lemma record_all_object:
  "map_option object (table (record_all hs msg r) k) = map_option object (table r k)"
  unfolding record_all_def
  by (induction hs arbitrary: r) (simp_all add: record_error_object)

lemma transform_objects:
  "map_option object
     (table (snd (snd (transform K source target dimension buffer offset count r))) k)
   = map_option object (table r k)"
  unfolding transform_def
  by (auto split: option.splits prod.splits side.splits
           simp: record_all_object record_error_object)

subsection \<open>Handles are issued once\<close>

lemma allocate_parse_error:
  "parser text = Inl diagnostic \<Longrightarrow> allocate parser text r = (Inl (ParseError diagnostic), r)"
  by (simp add: allocate_def)

lemma allocate_fresh:
  assumes "\<forall>k. nextHandle r \<le> k \<longrightarrow> table r k = None"
      and "allocate parser text r = (Inr h, r')"
  shows "table r h = None \<and> table r' h \<noteq> None
         \<and> (\<forall>k. k \<noteq> h \<longrightarrow> table r' k = table r k)
         \<and> (\<forall>k. nextHandle r' \<le> k \<longrightarrow> table r' k = None)"
  using assms by (auto simp: allocate_def split: sum.splits)

lemma release_keeps_fresh:
  "\<forall>k. nextHandle r \<le> k \<longrightarrow> table r k = None
   \<Longrightarrow> \<forall>k. nextHandle (snd (release h r)) \<le> k \<longrightarrow> table (snd (release h r)) k = None"
  by (simp add: release_def)

lemma released_handle_not_reissued:
  assumes "\<forall>k. nextHandle r \<le> k \<longrightarrow> table r k = None" and "table r h \<noteq> None"
      and "allocate parser text (snd (release h r)) = (Inr h', r')"
  shows "h' \<noteq> h"
  using assms by (auto simp: allocate_def release_def split: sum.splits)

subsection \<open>The dimension guard\<close>

text \<open>A call within the preconditions runs the kernel over the tuples it names.\<close>

lemma transform_sample_accepts:
  "transform shift_kernel 1 2 2 [1, 2, 3, 4, 5] 1 2 sample_registry
     = (Success, [1, 3, 4, 5, 6], sample_registry)"
  by (simp add: transform_def sample_registry_def
      org_apache_sis_storage_gdal_PJ_DIMENSION_MAX_def shift_kernel_def write_tuple_def
      numeral_2_eq_2)

text \<open>
  Claim C3. A call to \<open>transform\<close> with \<open>dimension = 0\<close>, or with \<open>dimension\<close> above the
  ceiling \<open>DIMENSION_MAX = 100\<close> of the header, is rejected and hands the coordinate
  buffer back as it was: the status is the dimension rejection (or InvalidHandle when a
  handle is not live), and the outcome is the same whatever the kernel, since no tuple
  is read.
\<close>

theorem transform_rejects_dimension:
  assumes "dimension = 0 \<or> org_apache_sis_storage_gdal_PJ_DIMENSION_MAX < sint dimension"
  shows "\<exists>st r'. transform K source target dimension buffer offset count r = (st, buffer, r')
           \<and> (st = Rejected dimension_message \<or> st = Failed InvalidHandle)
           \<and> transform K' source target dimension buffer offset count r = (st, buffer, r')"
  using assms
  by (auto simp: transform_def org_apache_sis_storage_gdal_PJ_DIMENSION_MAX_def
           split: option.splits)

theorem transform_rejects_dimension_witness:
  "transform shift_kernel 1 2 0 [1, 2, 3, 4, 5] 1 2 sample_registry
     = (Rejected dimension_message, [1, 2, 3, 4, 5],
        record_all [1, 2] dimension_message sample_registry)
   \<and> transform shift_kernel 1 2 101 [1, 2, 3, 4, 5] 1 2 sample_registry
     = (Rejected dimension_message, [1, 2, 3, 4, 5],
        record_all [1, 2] dimension_message sample_registry)
   \<and> transform shift_kernel 1 9 0 [1, 2, 3, 4, 5] 1 2 sample_registry
     = (Failed InvalidHandle, [1, 2, 3, 4, 5],
        record_all [1, 9] handle_message sample_registry)"
  using transform_rejects_dimension
          [of 0 shift_kernel 1 2 "[1, 2, 3, 4, 5]" 1 2 sample_registry shift_kernel]
        transform_rejects_dimension
          [of 101 shift_kernel 1 2 "[1, 2, 3, 4, 5]" 1 2 sample_registry shift_kernel]
        transform_rejects_dimension
          [of 0 shift_kernel 1 9 "[1, 2, 3, 4, 5]" 1 2 sample_registry shift_kernel]
  by (simp add: transform_def sample_registry_def
      org_apache_sis_storage_gdal_PJ_DIMENSION_MAX_def)

subsection \<open>Release\<close>

text \<open>
  Claim C4. \<open>release\<close> is idempotent: it never fails; releasing a handle a second time
  changes nothing; releasing a handle that is unknown or already released changes
  nothing; and a release leaves the entry of every other handle, and the next handle to
  be issued, as they were.
\<close>

theorem release_idempotent:
  "fst (release h r) = Inr ()
   \<and> release h (snd (release h r)) = (Inr (), snd (release h r))
   \<and> (table r h = None \<longrightarrow> release h r = (Inr (), r))
   \<and> (\<forall>h'. h' \<noteq> h \<longrightarrow> table (snd (release h r)) h' = table r h')
   \<and> nextHandle (snd (release h r)) = nextHandle r"
  by (simp add: release_def fun_upd_idem)

theorem release_idempotent_witness:
  "table sample_registry 7 = None
   \<and> release 7 sample_registry = (Inr (), sample_registry)
   \<and> table sample_registry 1 \<noteq> None
   \<and> table (snd (release 1 sample_registry)) 1 = None
   \<and> release 1 (snd (release 1 sample_registry)) = (Inr (), snd (release 1 sample_registry))
   \<and> table (snd (release 1 sample_registry)) 2 = table sample_registry 2"
  using release_idempotent [of 7 sample_registry] release_idempotent [of 1 sample_registry]
  by (simp add: sample_registry_def release_def)

end
